theory Spec2Isabelle
  imports Main "HOL-Library.Sublist"
begin

section \<open>Node resource store: data model\<close>

text \<open>
  The embedding follows \<^verbatim>\<open>src/store/etcd/node.go\<close>. Everything outside that file
  (the etcd client, the engine client, the local file system, the distributed lock, the
  pod repository, the JSON codec and the URL helpers of the Go library) is an external
  collaborator. Each fallible external call consults the oracle \<open>fault\<close> of the
  environment at the current tick (the number of external calls made so far, which is the
  length of the trace) and appends one event to the trace, so that any pattern of
  failures of the collaborators is some environment.
\<close>

datatype error =
    EtcdFailure string
  | KeyNotFound string
  | NotAFile string
  | IsDirectory string
  | NotDirectory string
  | BadEndpoint string
  | JSONError string
  | URLError string
  | EngineError string
  | NotExist string
  | FSError string
  | TLSError string
  | LockError string
  | PodError string

text \<open>
  Modelled from the spec: the source returns untyped Go errors; the kinds below are the
  taxonomy of section 7 of the specification (\<open>Corrupt\<close> is a wrong node type at a key
  or an unparseable document, \<open>ValidationError\<close> is malformed input such as an endpoint
  without the required scheme or a pod that does not exist). A transport failure of the
  store has no kind in that taxonomy and is \<open>Unclassified\<close>.
\<close>

datatype error_kind =
  NotFound | Corrupt | Unreachable | LockFailure | ValidationError | PartialMaterial | Unclassified

fun kind_of :: "error \<Rightarrow> error_kind" where
  "kind_of (EtcdFailure _) = Unclassified"
| "kind_of (KeyNotFound _) = NotFound"
| "kind_of (NotAFile _) = Corrupt"
| "kind_of (IsDirectory _) = Corrupt"
| "kind_of (NotDirectory _) = Corrupt"
| "kind_of (BadEndpoint _) = ValidationError"
| "kind_of (JSONError _) = Corrupt"
| "kind_of (URLError _) = Unreachable"
| "kind_of (EngineError _) = Unreachable"
| "kind_of (NotExist _) = PartialMaterial"
| "kind_of (FSError _) = PartialMaterial"
| "kind_of (TLSError _) = Unreachable"
| "kind_of (LockError _) = LockFailure"
| "kind_of (PodError _) = ValidationError"

text \<open>
  Modelled from the spec: \<^verbatim>\<open>types.CPUMap\<close> is declared outside the source file; the
  specification gives it as a mapping from core label to an integer share count. A Go
  \<^verbatim>\<open>nil\<close> map and an empty map are both the empty map here.
\<close>

type_synonym CPUMap = "string \<rightharpoonup> int"

text \<open>
  Modelled from the spec: \<^verbatim>\<open>CPUMap.Add\<close> and \<^verbatim>\<open>CPUMap.Sub\<close> are defined outside
  the source file. \<open>Add\<close>: for each label in \<open>q\<close>, increase this map's value by
  \<open>q\<close>'s value, creating the label if absent. \<open>Sub\<close>: for each label in \<open>q\<close>,
  decrease this map's value by \<open>q\<close>'s value, with no floor at zero; a label the map
  lacks counts as the zero value of a Go map read.
\<close>

definition Add :: "CPUMap \<Rightarrow> CPUMap \<Rightarrow> CPUMap" where
  "Add c q = (\<lambda>label. case q label of
                 None \<Rightarrow> c label
               | Some v \<Rightarrow> Some ((case c label of None \<Rightarrow> 0 | Some x \<Rightarrow> x) + v))"

definition Sub :: "CPUMap \<Rightarrow> CPUMap \<Rightarrow> CPUMap" where
  "Sub c q = (\<lambda>label. case q label of
                 None \<Rightarrow> c label
               | Some v \<Rightarrow> Some ((case c label of None \<Rightarrow> 0 | Some x \<Rightarrow> x) - v))"

datatype TLSConfig = TLSConfig (CAFile: string) (CertFile: string) (KeyFile: string)

text \<open>
  An engine client handle. The first field is the tick at which the handle was built,
  which stands for the identity of the Go pointer.
\<close>

datatype Client = Client (built_at: nat) (client_endpoint: string) (client_version: string)
  (client_tls: "TLSConfig option")

text \<open>
  Modelled from the spec: \<^verbatim>\<open>types.Node\<close> is declared outside the source file. The
  fields are those that \<^verbatim>\<open>AddNode\<close> sets, together with \<open>InitCPU\<close>, \<open>MemCap\<close> and
  \<open>InitMemCap\<close>, which section 3 of the specification names and the RPC conversion
  reads. \<open>Engine\<close> is the transient connection handle (\<^verbatim>\<open>nil\<close> is \<open>None\<close>).
\<close>

record Node =
  Name :: string
  Endpoint :: string
  Podname :: string
  Public :: bool
  CPU :: CPUMap
  InitCPU :: CPUMap
  MemCap :: int
  InitMemCap :: int
  Engine :: "Client option"

datatype Pod = Pod (pod_Name: string) (pod_Desc: string)

record Info =
  NCPU :: int

text \<open>The node of an etcd response: \<^verbatim>\<open>resp.Node\<close> with its children.\<close>

datatype etcd_node = EtcdNode (Key: string) (Dir: bool) (Value: string) (Nodes: "etcd_node list")

datatype fs_entry = Directory | File string nat

datatype Lock = Lock (lock_name: string) (lock_ttl: int)

datatype event =
    EtcdGet string
  | EtcdSet string string
  | GetPodE string
  | GetAllPodsE
  | CreateLockE string int
  | LockE string
  | UnlockE string
  | StatE string
  | MkdirAllE string
  | SaveFileE string
  | TLSClientE string
  | NewClientE string
  | InfoE Client "nat option" bool

record world =
  etcd :: "string \<rightharpoonup> etcd_node"
  clients :: "string \<rightharpoonup> Client"
  files :: "string \<rightharpoonup> fs_entry"
  held :: "string list"
  trace :: "event list"

text \<open>
  The environment: the configuration of the store (\<^verbatim>\<open>k.config.Docker\<close>), the key
  formats of the TLS blobs (constants declared outside the source file), the pure
  library helpers the source calls, and the oracles of the external collaborators.
\<close>

record env =
  CertPath :: string
  APIVersion :: string
  nodeCaKey :: "string \<Rightarrow> string \<Rightarrow> string"
  nodeCertKey :: "string \<Rightarrow> string \<Rightarrow> string"
  nodeKeyKey :: "string \<Rightarrow> string \<Rightarrow> string"
  Marshal :: "Node \<Rightarrow> string + string"
  Unmarshal :: "string \<Rightarrow> string + Node"
  url_Host :: "string \<Rightarrow> string + string"
  SplitHostPort :: "string \<Rightarrow> string + string"
  Join :: "string \<Rightarrow> string \<Rightarrow> string"
  Tail :: "string \<Rightarrow> string"
  fault :: "nat \<Rightarrow> error option"
  engine_info :: "Client \<Rightarrow> Info"
  all_pods :: "nat \<Rightarrow> Pod list"

definition tick :: "world \<Rightarrow> nat" where
  "tick s = length (trace s)"

definition emit :: "event \<Rightarrow> world \<Rightarrow> world" where
  "emit ev s = s\<lparr>trace := trace s @ [ev]\<rparr>"

text \<open>
  The key formats. The source comments give the layout:
  \<^verbatim>\<open>/eru-core/pod/:podname/node/:nodename/info\<close> and \<^verbatim>\<open>/eru-core/pod/:podname/node\<close>.
\<close>

definition nodeInfoKey :: "string \<Rightarrow> string \<Rightarrow> string" where
  "nodeInfoKey podname nodename = ''/eru-core/pod/'' @ podname @ ''/node/'' @ nodename @ ''/info''"

definition podNodesKey :: "string \<Rightarrow> string" where
  "podNodesKey podname = ''/eru-core/pod/'' @ podname @ ''/node''"

section \<open>External collaborators\<close>

subsection \<open>The etcd client\<close>

text \<open>
  The store is a map from keys to etcd nodes, as a client sees it: \<^verbatim>\<open>Get\<close> returns
  the node at the key, or the error of an absent key; \<^verbatim>\<open>Set\<close> writes a leaf at the
  key and refuses a key that holds a directory. The parent directories that etcd creates
  on a write are not maintained.
\<close>

definition etcd_Get :: "env \<Rightarrow> string \<Rightarrow> world \<Rightarrow> (error + etcd_node) \<times> world" where
  "etcd_Get E key s =
     (case fault E (tick s) of
        Some e \<Rightarrow> (Inl e, emit (EtcdGet key) s)
      | None \<Rightarrow>
          (case etcd s key of
             None \<Rightarrow> (Inl (KeyNotFound key), emit (EtcdGet key) s)
           | Some n \<Rightarrow> (Inr n, emit (EtcdGet key) s)))"

definition etcd_Set :: "env \<Rightarrow> string \<Rightarrow> string \<Rightarrow> world \<Rightarrow> (error + unit) \<times> world" where
  "etcd_Set E key val s =
     (case fault E (tick s) of
        Some e \<Rightarrow> (Inl e, emit (EtcdSet key val) s)
      | None \<Rightarrow>
          (if (case etcd s key of None \<Rightarrow> False | Some n \<Rightarrow> Dir n)
           then (Inl (NotAFile key), emit (EtcdSet key val) s)
           else (Inr (), emit (EtcdSet key val)
                   (s\<lparr>etcd := (etcd s)(key \<mapsto> EtcdNode key False val [])\<rparr>))))"

subsection \<open>The pod repository\<close>

text \<open>
  Modelled from the spec: \<^verbatim>\<open>GetPod\<close> and \<^verbatim>\<open>GetAllPods\<close> are outside the source
  file; they return an existing pod (the pods) or an error.
\<close>

definition GetPod :: "env \<Rightarrow> string \<Rightarrow> world \<Rightarrow> (error + Pod) \<times> world" where
  "GetPod E podname s =
     (case fault E (tick s) of
        Some e \<Rightarrow> (Inl e, emit (GetPodE podname) s)
      | None \<Rightarrow> (Inr (Pod podname []), emit (GetPodE podname) s))"

definition GetAllPods :: "env \<Rightarrow> world \<Rightarrow> (error + Pod list) \<times> world" where
  "GetAllPods E s =
     (case fault E (tick s) of
        Some e \<Rightarrow> (Inl e, emit GetAllPodsE s)
      | None \<Rightarrow> (Inr (all_pods E (tick s)), emit GetAllPodsE s))"

subsection \<open>The distributed lock\<close>

text \<open>
  Modelled from the spec: \<^verbatim>\<open>CreateLock\<close>, \<^verbatim>\<open>Lock\<close> and \<^verbatim>\<open>Unlock\<close> are outside the
  source file. Acquisition gives mutual exclusion on the name; in this sequential model
  an acquisition of a name that is held fails instead of blocking. Release is idempotent.
\<close>

definition CreateLock :: "env \<Rightarrow> string \<Rightarrow> int \<Rightarrow> world \<Rightarrow> (error + Lock) \<times> world" where
  "CreateLock E name ttl s =
     (case fault E (tick s) of
        Some e \<Rightarrow> (Inl e, emit (CreateLockE name ttl) s)
      | None \<Rightarrow> (Inr (Lock name ttl), emit (CreateLockE name ttl) s))"

definition Lock_acquire :: "env \<Rightarrow> Lock \<Rightarrow> world \<Rightarrow> (error + unit) \<times> world" where
  "Lock_acquire E l s =
     (case fault E (tick s) of
        Some e \<Rightarrow> (Inl e, emit (LockE (lock_name l)) s)
      | None \<Rightarrow>
          (if lock_name l \<in> set (held s)
           then (Inl (LockError (lock_name l)), emit (LockE (lock_name l)) s)
           else (Inr (), emit (LockE (lock_name l)) (s\<lparr>held := lock_name l # held s\<rparr>))))"

definition Unlock :: "Lock \<Rightarrow> world \<Rightarrow> world" where
  "Unlock l s = emit (UnlockE (lock_name l)) (s\<lparr>held := removeAll (lock_name l) (held s)\<rparr>)"

subsection \<open>The local file system\<close>

text \<open>
  The file system is a map from paths to entries. \<^verbatim>\<open>os.Stat\<close> returns the error that
  \<^verbatim>\<open>os.IsNotExist\<close> recognises when the path is absent; \<^verbatim>\<open>os.MkdirAll\<close> records the
  directory itself.
\<close>

definition os_Stat :: "env \<Rightarrow> string \<Rightarrow> world \<Rightarrow> error option \<times> world" where
  "os_Stat E path s =
     (case fault E (tick s) of
        Some e \<Rightarrow> (Some e, emit (StatE path) s)
      | None \<Rightarrow>
          (case files s path of
             None \<Rightarrow> (Some (NotExist path), emit (StatE path) s)
           | Some _ \<Rightarrow> (None, emit (StatE path) s)))"

fun IsNotExist :: "error option \<Rightarrow> bool" where
  "IsNotExist (Some (NotExist _)) = True"
| "IsNotExist _ = False"

definition os_MkdirAll :: "env \<Rightarrow> string \<Rightarrow> world \<Rightarrow> (error + unit) \<times> world" where
  "os_MkdirAll E path s =
     (case fault E (tick s) of
        Some e \<Rightarrow> (Inl e, emit (MkdirAllE path) s)
      | None \<Rightarrow>
          (case files s path of
             Some (File _ _) \<Rightarrow> (Inl (FSError path), emit (MkdirAllE path) s)
           | _ \<Rightarrow> (Inr (), emit (MkdirAllE path) (s\<lparr>files := (files s)(path \<mapsto> Directory)\<rparr>))))"

text \<open>
  Modelled from the spec: \<^verbatim>\<open>utils.SaveFile\<close> is outside the source file; it writes
  the content to the file name with the given permissions.
\<close>

definition SaveFile :: "env \<Rightarrow> string \<Rightarrow> string \<Rightarrow> nat \<Rightarrow> world \<Rightarrow> (error + unit) \<times> world" where
  "SaveFile E content path mode s =
     (case fault E (tick s) of
        Some e \<Rightarrow> (Inl e, emit (SaveFileE path) s)
      | None \<Rightarrow> (Inr (), emit (SaveFileE path) (s\<lparr>files := (files s)(path \<mapsto> File content mode)\<rparr>)))"

subsection \<open>The engine client library\<close>

text \<open>
  \<^verbatim>\<open>tlsconfig.Client\<close> loads the three files it is given and fails when one is not a
  file; \<^verbatim>\<open>engineapi.NewClient\<close> builds a handle; \<^verbatim>\<open>Info\<close> is called with an optional
  timeout in seconds (\<open>None\<close> for \<^verbatim>\<open>context.Background()\<close>) and the trace records
  whether it answered.
\<close>

definition is_file :: "world \<Rightarrow> string \<Rightarrow> bool" where
  "is_file s path = (case files s path of Some (File _ _) \<Rightarrow> True | _ \<Rightarrow> False)"

definition tlsconfig_Client :: "env \<Rightarrow> TLSConfig \<Rightarrow> world \<Rightarrow> (error + TLSConfig) \<times> world" where
  "tlsconfig_Client E options s =
     (case fault E (tick s) of
        Some e \<Rightarrow> (Inl e, emit (TLSClientE (CAFile options)) s)
      | None \<Rightarrow>
          (if is_file s (CAFile options) \<and> is_file s (CertFile options) \<and> is_file s (KeyFile options)
           then (Inr options, emit (TLSClientE (CAFile options)) s)
           else (Inl (TLSError (CAFile options)), emit (TLSClientE (CAFile options)) s)))"

definition NewClient :: "env \<Rightarrow> string \<Rightarrow> string \<Rightarrow> TLSConfig option \<Rightarrow> world \<Rightarrow> (error + Client) \<times> world" where
  "NewClient E endpoint apiversion cli s =
     (case fault E (tick s) of
        Some e \<Rightarrow> (Inl e, emit (NewClientE endpoint) s)
      | None \<Rightarrow> (Inr (Client (tick s) endpoint apiversion cli), emit (NewClientE endpoint) s))"

definition engine_Info :: "env \<Rightarrow> Client \<Rightarrow> nat option \<Rightarrow> world \<Rightarrow> (error + Info) \<times> world" where
  "engine_Info E client timeout s =
     (case fault E (tick s) of
        Some e \<Rightarrow> (Inl e, emit (InfoE client timeout False) s)
      | None \<Rightarrow> (Inr (engine_info E client), emit (InfoE client timeout True) s))"

section \<open>The engine client cache\<close>

definition cache_set :: "string \<Rightarrow> Client \<Rightarrow> world \<Rightarrow> world" where
  "cache_set host client s = s\<lparr>clients := (clients s)(host \<mapsto> client)\<rparr>"

definition cache_get :: "string \<Rightarrow> world \<Rightarrow> Client option" where
  "cache_get host s = clients s host"

definition makeRawClient :: "env \<Rightarrow> string \<Rightarrow> string \<Rightarrow> string \<Rightarrow> world \<Rightarrow> (error + Client) \<times> world" where
  "makeRawClient E endpoint certpath apiversion s =
     (if certpath \<noteq> []
      then (case tlsconfig_Client E
                   (TLSConfig (Join E certpath ''ca.pem'') (Join E certpath ''cert.pem'')
                      (Join E certpath ''key.pem'')) s of
              (Inl e, s1) \<Rightarrow> (Inl e, s1)
            | (Inr tlsc, s1) \<Rightarrow> NewClient E endpoint apiversion (Some tlsc) s1)
      else NewClient E endpoint apiversion None s)"

text \<open>
  The loop of \<^verbatim>\<open>dumpFromEtcd\<close> over the three key formats and file names. The
  permissions \<^verbatim>\<open>0444\<close> are octal, that is 292.
\<close>

fun dump_files :: "env \<Rightarrow> string \<Rightarrow> (string \<times> string) list \<Rightarrow> world \<Rightarrow> (error + unit) \<times> world" where
  "dump_files E certprefix [] s = (Inr (), s)"
| "dump_files E certprefix ((key, filename) # rest) s =
     (case etcd_Get E key s of
        (Inl e, s1) \<Rightarrow> (Inl e, s1)
      | (Inr resp, s1) \<Rightarrow>
          (case SaveFile E (Value resp) (Join E certprefix filename) 292 s1 of
             (Inl e, s2) \<Rightarrow> (Inl e, s2)
           | (Inr _, s2) \<Rightarrow> dump_files E certprefix rest s2))"

definition dumpFromEtcd :: "env \<Rightarrow> string \<Rightarrow> string \<Rightarrow> string \<Rightarrow> world \<Rightarrow> (error + unit) \<times> world" where
  "dumpFromEtcd E podname nodename certprefix s =
     (case os_MkdirAll E certprefix s of
        (Inl e, s1) \<Rightarrow> (Inl e, s1)
      | (Inr _, s1) \<Rightarrow>
          dump_files E certprefix
            [(nodeCaKey E podname nodename, ''ca.pem''),
             (nodeCertKey E podname nodename, ''cert.pem''),
             (nodeKeyKey E podname nodename, ''key.pem'')] s1)"

text \<open>The body of the branch \<^verbatim>\<open>if client == nil || force\<close> of \<^verbatim>\<open>makeDockerClient\<close>.\<close>

definition buildClient :: "env \<Rightarrow> string \<Rightarrow> string \<Rightarrow> string \<Rightarrow> string \<Rightarrow> world \<Rightarrow> (error + Client) \<times> world" where
  "buildClient E podname nodename endpoint host s =
     (case (if CertPath E \<noteq> []
            then (case os_Stat E (Join E (CertPath E) host) s of
                    (err, s1) \<Rightarrow>
                      (if IsNotExist err
                       then (case dumpFromEtcd E podname nodename (Join E (CertPath E) host) s1 of
                               (Inl e, s2) \<Rightarrow> (Inl e, s2)
                             | (Inr _, s2) \<Rightarrow> (Inr (Join E (CertPath E) host), s2))
                       else (Inr (Join E (CertPath E) host), s1)))
            else (Inr [], s)) of
        (Inl e, s2) \<Rightarrow> (Inl e, s2)
      | (Inr dockerCertPath, s2) \<Rightarrow>
          (case makeRawClient E endpoint dockerCertPath (APIVersion E) s2 of
             (Inl e, s3) \<Rightarrow> (Inl e, s3)
           | (Inr client, s3) \<Rightarrow> (Inr client, cache_set host client s3)))"

definition makeDockerClient :: "env \<Rightarrow> string \<Rightarrow> string \<Rightarrow> string \<Rightarrow> bool \<Rightarrow> world \<Rightarrow> (error + Client) \<times> world" where
  "makeDockerClient E podname nodename endpoint force s =
     (case url_Host E endpoint of
        Inl msg \<Rightarrow> (Inl (URLError msg), s)
      | Inr uhost \<Rightarrow>
          (case SplitHostPort E uhost of
             Inl msg \<Rightarrow> (Inl (URLError msg), s)
           | Inr host \<Rightarrow>
               (case (case cache_get host s of
                        Some client \<Rightarrow>
                          (if force then buildClient E podname nodename endpoint host s
                           else (Inr client, s))
                      | None \<Rightarrow> buildClient E podname nodename endpoint host s) of
                  (Inl e, s1) \<Rightarrow> (Inl e, s1)
                | (Inr client, s1) \<Rightarrow>
                    (case engine_Info E client (Some 5) s1 of
                       (Inl e, s2) \<Rightarrow> (Inl e, s2)
                     | (Inr _, s2) \<Rightarrow> (Inr client, s2)))))"

section \<open>The node repository\<close>

definition GetNode :: "env \<Rightarrow> string \<Rightarrow> string \<Rightarrow> world \<Rightarrow> (error + Node) \<times> world" where
  "GetNode E podname nodename s =
     (case etcd_Get E (nodeInfoKey podname nodename) s of
        (Inl e, s1) \<Rightarrow> (Inl e, s1)
      | (Inr resp, s1) \<Rightarrow>
          (if Dir resp then (Inl (IsDirectory (nodeInfoKey podname nodename)), s1)
           else (case Unmarshal E (Value resp) of
                   Inl msg \<Rightarrow> (Inl (JSONError msg), s1)
                 | Inr node \<Rightarrow>
                     (case makeDockerClient E podname nodename (Endpoint node) False s1 of
                        (Inl e, s2) \<Rightarrow> (Inl e, s2)
                      | (Inr engine, s2) \<Rightarrow> (Inr (node\<lparr>Engine := Some engine\<rparr>), s2)))))"

text \<open>
  \<^verbatim>\<open>strconv.Itoa\<close>: the decimal digits of an integer, with a minus sign when negative.
\<close>

definition digit_char :: "nat \<Rightarrow> char" where
  "digit_char d = ''0123456789'' ! d"

function digits :: "nat \<Rightarrow> string" where
  "digits n = (if n < 10 then [digit_char n] else digits (n div 10) @ [digit_char (n mod 10)])"
  by pat_completeness auto
termination
  by (relation "measure (\<lambda>n. n)") auto

declare digits.simps [simp del]

definition Itoa :: "int \<Rightarrow> string" where
  "Itoa i = (if i < 0 then CHR ''-'' # digits (nat (- i)) else digits (nat i))"

text \<open>The loop \<^verbatim>\<open>for i := 0; i < info.NCPU; i++ { cpumap[strconv.Itoa(i)] = 10 }\<close>.\<close>

function cpumap_loop :: "int \<Rightarrow> int \<Rightarrow> CPUMap \<Rightarrow> CPUMap" where
  "cpumap_loop i n cpumap =
     (if i < n then cpumap_loop (i + 1) n (cpumap(Itoa i \<mapsto> 10)) else cpumap)"
  by pat_completeness auto
termination
  by (relation "measure (\<lambda>(i, n, cpumap). nat (n - i))") auto

declare cpumap_loop.simps [simp del]

text \<open>The three writes of the TLS blobs in \<^verbatim>\<open>AddNode\<close>, each returning at its error.\<close>

definition saveTLS :: "env \<Rightarrow> string \<Rightarrow> string \<Rightarrow> string \<Rightarrow> string \<Rightarrow> string \<Rightarrow> world \<Rightarrow> (error + unit) \<times> world" where
  "saveTLS E name podname cafile certfile keyfile s =
     (if cafile \<noteq> [] \<and> certfile \<noteq> [] \<and> keyfile \<noteq> []
      then (case etcd_Set E (nodeCaKey E podname name) cafile s of
              (Inl e, s1) \<Rightarrow> (Inl e, s1)
            | (Inr _, s1) \<Rightarrow>
                (case etcd_Set E (nodeCertKey E podname name) certfile s1 of
                   (Inl e, s2) \<Rightarrow> (Inl e, s2)
                 | (Inr _, s2) \<Rightarrow> etcd_Set E (nodeKeyKey E podname name) keyfile s2))
      else (Inr (), s))"

definition AddNode :: "env \<Rightarrow> string \<Rightarrow> string \<Rightarrow> string \<Rightarrow> string \<Rightarrow> string \<Rightarrow> string \<Rightarrow> bool \<Rightarrow> world
    \<Rightarrow> (error + Node) \<times> world" where
  "AddNode E name endpoint podname cafile certfile keyfile public s =
     (if \<not> prefix ''tcp://'' endpoint then (Inl (BadEndpoint endpoint), s)
      else (case GetPod E podname s of
              (Inl e, s1) \<Rightarrow> (Inl e, s1)
            | (Inr _, s1) \<Rightarrow>
      (case saveTLS E name podname cafile certfile keyfile s1 of
              (Inl e, s2) \<Rightarrow> (Inl e, s2)
            | (Inr _, s2) \<Rightarrow>
      (case makeDockerClient E podname name endpoint False s2 of
              (Inl e, s3) \<Rightarrow> (Inl e, s3)
            | (Inr engine, s3) \<Rightarrow>
      (case engine_Info E engine None s3 of
              (Inl e, s4) \<Rightarrow> (Inl e, s4)
            | (Inr info, s4) \<Rightarrow>
      (let node = \<lparr>Name = name, Endpoint = endpoint, Podname = podname, Public = public,
                    CPU = cpumap_loop 0 (NCPU info) Map.empty, InitCPU = Map.empty,
                    MemCap = 0, InitMemCap = 0, Engine = Some engine\<rparr>
       in (case Marshal E node of
             Inl msg \<Rightarrow> (Inl (JSONError msg), s4)
           | Inr bytes \<Rightarrow>
               (case etcd_Set E (nodeInfoKey podname name) bytes s4 of
                  (Inl e, s5) \<Rightarrow> (Inl e, s5)
                | (Inr _, s5) \<Rightarrow> (Inr node, s5)))))))))"





definition UpdateNode :: "env \<Rightarrow> Node \<Rightarrow> world \<Rightarrow> (error + unit) \<times> world" where
  "UpdateNode E node s =
     (case Marshal E node of
        Inl msg \<Rightarrow> (Inl (JSONError msg), s)
      | Inr bytes \<Rightarrow> etcd_Set E (nodeInfoKey (Podname node) (Name node)) bytes s)"

section \<open>The CPU resource ledger\<close>

definition applyAction :: "string \<Rightarrow> CPUMap \<Rightarrow> Node \<Rightarrow> Node" where
  "applyAction action cpu node =
     (if action = ''add'' \<or> action = ''+'' then node\<lparr>CPU := Add (CPU node) cpu\<rparr>
      else if action = ''sub'' \<or> action = ''-'' then node\<lparr>CPU := Sub (CPU node) cpu\<rparr>
      else node)"

text \<open>The part of \<^verbatim>\<open>UpdateNodeCPU\<close> that runs while the lock is held.\<close>

definition UpdateNodeCPU_locked :: "env \<Rightarrow> string \<Rightarrow> string \<Rightarrow> CPUMap \<Rightarrow> string \<Rightarrow> world
    \<Rightarrow> (error + unit) \<times> world" where
  "UpdateNodeCPU_locked E podname nodename cpu action s =
     (case etcd_Get E (nodeInfoKey podname nodename) s of
        (Inl e, s1) \<Rightarrow> (Inl e, s1)
      | (Inr resp, s1) \<Rightarrow>
          (if Dir resp then (Inl (IsDirectory (nodeInfoKey podname nodename)), s1)
           else (case Unmarshal E (Value resp) of
                   Inl msg \<Rightarrow> (Inl (JSONError msg), s1)
                 | Inr node \<Rightarrow>
                     (case Marshal E (applyAction action cpu node) of
                        Inl msg \<Rightarrow> (Inl (JSONError msg), s1)
                      | Inr bytes \<Rightarrow> etcd_Set E (nodeInfoKey podname nodename) bytes s1))))"

text \<open>
  \<^verbatim>\<open>defer lock.Unlock()\<close> runs when the function returns after the lock was taken,
  whatever the result.
\<close>

definition UpdateNodeCPU :: "env \<Rightarrow> string \<Rightarrow> string \<Rightarrow> CPUMap \<Rightarrow> string \<Rightarrow> world
    \<Rightarrow> (error + unit) \<times> world" where
  "UpdateNodeCPU E podname nodename cpu action s =
     (case CreateLock E (podname @ ''_'' @ nodename) 30 s of
        (Inl e, s1) \<Rightarrow> (Inl e, s1)
      | (Inr lock, s1) \<Rightarrow>
          (case Lock_acquire E lock s1 of
             (Inl e, s2) \<Rightarrow> (Inl e, s2)
           | (Inr _, s2) \<Rightarrow>
               (case UpdateNodeCPU_locked E podname nodename cpu action s2 of
                  (r, s3) \<Rightarrow> (r, Unlock lock s3))))"

section \<open>A concrete environment and store\<close>

text \<open>
  A small environment and store on which the operations are evaluated: a toy codec that
  writes a node as \<^verbatim>\<open>node:pod/name\<close>, a pod \<^verbatim>\<open>default\<close> with one node, and a pod
  \<^verbatim>\<open>broken\<close> whose second node has a directory where its document should be.
\<close>

definition demo_node :: "string \<Rightarrow> string \<Rightarrow> Node" where
  "demo_node podname name =
     \<lparr>Name = name, Endpoint = ''tcp://10.0.0.5:2375'', Podname = podname, Public = False,
      CPU = [''0'' \<mapsto> 10, ''1'' \<mapsto> 10], InitCPU = Map.empty,
      MemCap = 0, InitMemCap = 0, Engine = None\<rparr>"

definition demo_Marshal :: "Node \<Rightarrow> string + string" where
  "demo_Marshal node = Inr (''node:'' @ Podname node @ ''/'' @ Name node)"

definition demo_Unmarshal :: "string \<Rightarrow> string + Node" where
  "demo_Unmarshal bytes =
     (if prefix ''node:'' bytes
      then Inr (demo_node (takeWhile (\<lambda>c. c \<noteq> CHR ''/'') (drop 5 bytes))
                  (drop 1 (dropWhile (\<lambda>c. c \<noteq> CHR ''/'') (drop 5 bytes))))
      else Inl ''invalid character'')"

definition demo_env :: env where
  "demo_env =
     \<lparr>CertPath = [], APIVersion = ''v1.23'',
      nodeCaKey = (\<lambda>p n. ''/eru-core/pod/'' @ p @ ''/node/'' @ n @ ''/ca.pem''),
      nodeCertKey = (\<lambda>p n. ''/eru-core/pod/'' @ p @ ''/node/'' @ n @ ''/cert.pem''),
      nodeKeyKey = (\<lambda>p n. ''/eru-core/pod/'' @ p @ ''/node/'' @ n @ ''/key.pem''),
      Marshal = demo_Marshal, Unmarshal = demo_Unmarshal,
      url_Host = (\<lambda>e. if prefix ''tcp://'' e then Inr (drop 6 e) else Inl ''missing scheme''),
      SplitHostPort = (\<lambda>hp. if CHR '':'' \<in> set hp then Inr (takeWhile (\<lambda>c. c \<noteq> CHR '':'') hp)
                             else Inl ''missing port in address''),
      Join = (\<lambda>a b. a @ ''/'' @ b),
      Tail = (\<lambda>k. rev (takeWhile (\<lambda>c. c \<noteq> CHR ''/'') (rev k))),
      fault = (\<lambda>i. None),
      engine_info = (\<lambda>c. \<lparr>NCPU = 4\<rparr>),
      all_pods = (\<lambda>i. [Pod ''default'' [], Pod ''broken'' [], Pod ''later'' []])\<rparr>"

definition demo_world :: world where
  "demo_world =
     \<lparr>etcd =
        [''/eru-core/pod/default/node'' \<mapsto>
           EtcdNode ''/eru-core/pod/default/node'' True []
             [EtcdNode ''/eru-core/pod/default/node/node1'' True [] []],
         ''/eru-core/pod/default/node/node1/info'' \<mapsto>
           EtcdNode ''/eru-core/pod/default/node/node1/info'' False ''node:default/node1'' [],
         ''/eru-core/pod/default/node/garbled/info'' \<mapsto>
           EtcdNode ''/eru-core/pod/default/node/garbled/info'' False ''{not json'' [],
         ''/eru-core/pod/broken/node'' \<mapsto>
           EtcdNode ''/eru-core/pod/broken/node'' True []
             [EtcdNode ''/eru-core/pod/broken/node/node2'' True [] [],
              EtcdNode ''/eru-core/pod/broken/node/node3'' True [] [],
              EtcdNode ''/eru-core/pod/broken/node/node4'' True [] []],
         ''/eru-core/pod/broken/node/node2/info'' \<mapsto>
           EtcdNode ''/eru-core/pod/broken/node/node2/info'' False ''node:broken/node2'' [],
         ''/eru-core/pod/broken/node/node3/info'' \<mapsto>
           EtcdNode ''/eru-core/pod/broken/node/node3/info'' True [] [],
         ''/eru-core/pod/broken/node/node4/info'' \<mapsto>
           EtcdNode ''/eru-core/pod/broken/node/node4/info'' False ''node:broken/node4'' []],
      clients = Map.empty, files = Map.empty, held = [], trace = []\<rparr>"

text \<open>The handle that the first client construction in \<open>demo_world\<close> builds at a tick.\<close>

definition demo_client :: "nat \<Rightarrow> string \<Rightarrow> Client" where
  "demo_client t endpoint = Client t endpoint ''v1.23'' None"

text \<open>The node that \<^verbatim>\<open>AddNode\<close> returns for \<^verbatim>\<open>node9\<close> when the engine reports 4 cores.\<close>

definition demo_added :: Node where
  "demo_added =
     \<lparr>Name = ''node9'', Endpoint = ''tcp://10.0.0.9:2375'', Podname = ''default'', Public = False,
      CPU = cpumap_loop 0 4 Map.empty, InitCPU = Map.empty,
      MemCap = 0, InitMemCap = 0, Engine = Some (demo_client 1 ''tcp://10.0.0.9:2375'')\<rparr>"

text \<open>
  An environment with TLS configured, where the third external call (the read of the CA
  blob from etcd) fails, and a store whose per-host certificate directory exists and is
  empty.
\<close>

definition tls_env :: env where
  "tls_env = demo_env\<lparr>CertPath := ''/etc/docker/tls'',
     fault := (\<lambda>i. if i = 2 then Some (EtcdFailure ''context deadline exceeded'') else None)\<rparr>"

definition partial_world :: world where
  "partial_world = demo_world\<lparr>files := [''/etc/docker/tls/10.0.0.5'' \<mapsto> Directory]\<rparr>"



text \<open>
  A codec that keeps the CPU shares of the cores \<^verbatim>\<open>0\<close> and \<^verbatim>\<open>1\<close>: a node is written as
  \<^verbatim>\<open>node:pod/name|shares of 0|shares of 1\<close>, a share count in unary (\<^verbatim>\<open>+\<close> for each
  positive unit, \<^verbatim>\<open>-\<close> for each negative one, \<^verbatim>\<open>?\<close> for an absent label), and a store
  whose document of \<^verbatim>\<open>node1\<close> holds 10 shares on each core.
\<close>

definition shares :: "int option \<Rightarrow> string" where
  "shares v = (case v of
       None \<Rightarrow> ''?''
     | Some n \<Rightarrow> (if n < 0 then replicate (nat (- n)) CHR ''-'' else replicate (nat n) CHR ''+''))"

definition read_shares :: "string \<Rightarrow> int option" where
  "read_shares f = (if f = ''?'' then None
     else Some (int (length (filter (\<lambda>c. c = CHR ''+'') f)) - int (length (filter (\<lambda>c. c = CHR ''-'') f))))"

definition ledger_Marshal :: "Node \<Rightarrow> string + string" where
  "ledger_Marshal node =
     Inr (''node:'' @ Podname node @ ''/'' @ Name node @ ''|'' @ shares (CPU node ''0'')
            @ ''|'' @ shares (CPU node ''1''))"

definition ledger_Unmarshal :: "string \<Rightarrow> string + Node" where
  "ledger_Unmarshal bytes =
     (if prefix ''node:'' bytes
      then (let rest = drop 5 bytes;
                podname = takeWhile (\<lambda>c. c \<noteq> CHR ''/'') rest;
                rest1 = drop 1 (dropWhile (\<lambda>c. c \<noteq> CHR ''/'') rest);
                name = takeWhile (\<lambda>c. c \<noteq> CHR ''|'') rest1;
                rest2 = drop 1 (dropWhile (\<lambda>c. c \<noteq> CHR ''|'') rest1);
                cpu0 = takeWhile (\<lambda>c. c \<noteq> CHR ''|'') rest2;
                cpu1 = drop 1 (dropWhile (\<lambda>c. c \<noteq> CHR ''|'') rest2)
            in Inr ((demo_node podname name)
                      \<lparr>CPU := Map.empty(''0'' := read_shares cpu0, ''1'' := read_shares cpu1)\<rparr>))
      else Inl ''invalid character'')"

definition ledger_env :: env where
  "ledger_env = demo_env\<lparr>Marshal := ledger_Marshal, Unmarshal := ledger_Unmarshal\<rparr>"

definition ledger_world :: world where
  "ledger_world = demo_world\<lparr>etcd :=
     [''/eru-core/pod/default/node/node1/info'' \<mapsto>
        EtcdNode ''/eru-core/pod/default/node/node1/info'' False
          ''node:default/node1|++++++++++|++++++++++'' []]\<rparr>"

section \<open>Effects of the external calls\<close>

lemmas prim_defs = etcd_Get_def etcd_Set_def GetPod_def GetAllPods_def CreateLock_def
  Lock_acquire_def Unlock_def os_Stat_def os_MkdirAll_def SaveFile_def tlsconfig_Client_def
  NewClient_def engine_Info_def cache_set_def cache_get_def makeRawClient_def dumpFromEtcd_def
  buildClient_def makeDockerClient_def is_file_def

lemmas demo_defs = demo_env_def demo_world_def demo_Marshal_def demo_Unmarshal_def demo_node_def
  demo_client_def nodeInfoKey_def podNodesKey_def tick_def emit_def

lemmas ledger_defs = ledger_env_def ledger_world_def ledger_Marshal_def ledger_Unmarshal_def
  shares_def read_shares_def

lemma numeral_replicate: "replicate (numeral k) x = x # replicate (pred_numeral k) x"
  by (simp add: numeral_eq_Suc)

lemma emit_fields [simp]:
  "etcd (emit ev s) = etcd s" "held (emit ev s) = held s" "files (emit ev s) = files s"
  "clients (emit ev s) = clients s" "trace (emit ev s) = trace s @ [ev]"
  by (simp_all add: emit_def)

lemma etcd_Get_effect:
  "etcd_Get E key s = (r, s') \<Longrightarrow> s' = emit (EtcdGet key) s"
  by (auto simp: etcd_Get_def split: option.splits)

lemma etcd_Get_Inr:
  "etcd_Get E key s = (Inr resp, s') \<Longrightarrow>
     fault E (tick s) = None \<and> etcd s key = Some resp \<and> s' = emit (EtcdGet key) s"
  by (auto simp: etcd_Get_def split: option.splits)

lemma etcd_Set_trace:
  "etcd_Set E key val s = (r, s') \<Longrightarrow> trace s' = trace s @ [EtcdSet key val] \<and> held s' = held s"
  by (auto simp: etcd_Set_def split: option.splits if_splits)

lemma etcd_Set_Inr:
  "etcd_Set E key val s = (Inr u, s') \<Longrightarrow> etcd s' = (etcd s)(key \<mapsto> EtcdNode key False val [])"
  by (auto simp: etcd_Set_def split: option.splits if_splits)

lemma engine_Info_Inr:
  "engine_Info E c t s = (Inr i, s') \<Longrightarrow> s' = emit (InfoE c t True) s \<and> i = engine_info E c"
  by (auto simp: engine_Info_def split: option.splits)

lemma CreateLock_Inr:
  "CreateLock E name ttl s = (Inr l, s') \<Longrightarrow>
     l = Lock name ttl \<and> s' = emit (CreateLockE name ttl) s \<and> fault E (tick s) = None"
  by (auto simp: CreateLock_def split: option.splits)

lemma Lock_acquire_Inr:
  "Lock_acquire E l s = (Inr u, s') \<Longrightarrow>
     s' = emit (LockE (lock_name l)) (s\<lparr>held := lock_name l # held s\<rparr>)
     \<and> lock_name l \<notin> set (held s)"
  by (auto simp: Lock_acquire_def split: option.splits if_splits)

lemma Unlock_fields [simp]:
  "etcd (Unlock l s) = etcd s" "held (Unlock l s) = removeAll (lock_name l) (held s)"
  "trace (Unlock l s) = trace s @ [UnlockE (lock_name l)]"
  by (simp_all add: Unlock_def)

section \<open>Reading a node\<close>

lemma makeDockerClient_Inr:
  assumes "makeDockerClient E podname nodename endpoint force s = (Inr client, s')"
  shows "trace s' \<noteq> [] \<and> last (trace s') = InfoE client (Some 5) True"
  using assms
  by (auto simp: makeDockerClient_def split: sum.splits prod.splits option.splits if_splits
        dest!: engine_Info_Inr)

lemma GetNode_Inr:
  assumes "GetNode E podname nodename s = (Inr node, s')"
  shows "\<exists>client. Engine node = Some client \<and> trace s' \<noteq> []
           \<and> last (trace s') = InfoE client (Some 5) True"
  using assms
  by (auto simp: GetNode_def split: sum.splits prod.splits option.splits if_splits
        dest!: makeDockerClient_Inr)

lemma demo_get_node3:
  "etcd_Get demo_env (nodeInfoKey ''broken'' ''node3'') demo_world =
     (Inr (EtcdNode ''/eru-core/pod/broken/node/node3/info'' True [] []),
      emit (EtcdGet ''/eru-core/pod/broken/node/node3/info'') demo_world)"
  by (simp add: demo_defs prim_defs)

lemma demo_get_garbled:
  "etcd_Get demo_env (nodeInfoKey ''default'' ''garbled'') demo_world =
     (Inr (EtcdNode ''/eru-core/pod/default/node/garbled/info'' False ''{not json'' []),
      emit (EtcdGet ''/eru-core/pod/default/node/garbled/info'') demo_world)"
  by (simp add: demo_defs prim_defs)

text \<open>
  C6. When the key of (pod, name) resolves to a directory, \<^verbatim>\<open>GetNode\<close> fails with the
  error of the wrong node type, whose kind is \<open>Corrupt\<close>, and with no other error; when
  it resolves to a leaf whose bytes do not parse as a node document, \<^verbatim>\<open>GetNode\<close> fails
  with the parse error, whose kind is \<open>Corrupt\<close> as well. In both cases nothing is done
  after the read. "Resolves" means that the read of the key returns the etcd node.
\<close>

theorem GetNode_corrupt:
  "etcd_Get E (nodeInfoKey podname nodename) s = (Inr resp, s1) \<Longrightarrow>
     (Dir resp \<longrightarrow>
        GetNode E podname nodename s = (Inl (IsDirectory (nodeInfoKey podname nodename)), s1)
        \<and> kind_of (IsDirectory (nodeInfoKey podname nodename)) = Corrupt)
     \<and> (\<not> Dir resp \<longrightarrow> Unmarshal E (Value resp) = Inl msg \<longrightarrow>
        GetNode E podname nodename s = (Inl (JSONError msg), s1)
        \<and> kind_of (JSONError msg) = Corrupt)"
  by (simp add: GetNode_def)

theorem GetNode_corrupt_witness:
  "GetNode demo_env ''broken'' ''node3'' demo_world =
     (Inl (IsDirectory ''/eru-core/pod/broken/node/node3/info''),
      emit (EtcdGet ''/eru-core/pod/broken/node/node3/info'') demo_world)
   \<and> kind_of (IsDirectory ''/eru-core/pod/broken/node/node3/info'') = Corrupt
   \<and> Unmarshal demo_env ''{not json'' = Inl ''invalid character''
   \<and> GetNode demo_env ''default'' ''garbled'' demo_world =
     (Inl (JSONError ''invalid character''),
      emit (EtcdGet ''/eru-core/pod/default/node/garbled/info'') demo_world)
   \<and> kind_of (JSONError ''invalid character'') = Corrupt"
proof -
  have u: "Unmarshal demo_env ''{not json'' = Inl ''invalid character''"
    by (simp add: demo_defs)
  show ?thesis
    using GetNode_corrupt [OF demo_get_node3, of "''x''"]
      GetNode_corrupt [OF demo_get_garbled, of "''invalid character''"] u
    by (simp add: nodeInfoKey_def)
qed

section \<open>Adding a node\<close>

text \<open>
  C5. When the endpoint does not start with \<^verbatim>\<open>tcp://\<close>, \<^verbatim>\<open>AddNode\<close> fails with the
  endpoint error, whose kind is \<open>ValidationError\<close>, and returns the store, the cache,
  the file system and the trace of external calls as they were: no TLS blob and no node
  document is written, and neither the pod repository nor the engine is called.
\<close>

theorem AddNode_bad_scheme:
  "\<not> prefix ''tcp://'' endpoint \<Longrightarrow>
     AddNode E name endpoint podname cafile certfile keyfile public s
       = (Inl (BadEndpoint endpoint), s)
     \<and> kind_of (BadEndpoint endpoint) = ValidationError"
  by (simp add: AddNode_def)

theorem AddNode_bad_scheme_witness:
  "\<not> prefix ''tcp://'' ''unix:///var/run/docker.sock''
   \<and> AddNode demo_env ''node9'' ''unix:///var/run/docker.sock'' ''default'' ''ca'' ''cert'' ''key''
        False demo_world
       = (Inl (BadEndpoint ''unix:///var/run/docker.sock''), demo_world)
   \<and> kind_of (BadEndpoint ''unix:///var/run/docker.sock'') = ValidationError"
proof -
  have h: "\<not> prefix ''tcp://'' ''unix:///var/run/docker.sock''" by simp
  show ?thesis
    using h AddNode_bad_scheme [OF h, of demo_env "''node9''" "''default''" "''ca''" "''cert''"
        "''key''" False demo_world]
    by simp
qed

section \<open>The liveness probe\<close>






lemma prefix_emit: "prefix (trace s) (trace (emit ev s))"
  by simp










lemma cache_set_trace [simp]: "trace (cache_set host client s) = trace s"
  by (simp add: cache_set_def)










section \<open>Releasing the lock\<close>

lemma UpdateNodeCPU_locked_held:
  "UpdateNodeCPU_locked E podname nodename cpu action s = (r, s') \<Longrightarrow> held s' = held s"
  by (auto simp: UpdateNodeCPU_locked_def split: sum.splits prod.splits if_splits
        dest!: etcd_Get_effect etcd_Set_trace)

lemma UpdateNodeCPU_locked_trace:
  "UpdateNodeCPU_locked E podname nodename cpu action s = (r, s') \<Longrightarrow>
     \<exists>mid. trace s' = trace s @ mid \<and> (\<forall>name. UnlockE name \<notin> set mid \<and> LockE name \<notin> set mid)"
  by (auto simp: UpdateNodeCPU_locked_def split: sum.splits prod.splits if_splits
        dest!: etcd_Get_effect etcd_Set_trace)

lemma demo_CreateLock:
  "CreateLock demo_env (''broken'' @ ''_'' @ ''node3'') 30 demo_world =
     (Inr (Lock ''broken_node3'' 30), emit (CreateLockE ''broken_node3'' 30) demo_world)"
  by (simp add: demo_defs prim_defs)

lemma demo_Lock_acquire:
  "Lock_acquire demo_env (Lock ''broken_node3'' 30) (emit (CreateLockE ''broken_node3'' 30) demo_world) =
     (Inr (), demo_world\<lparr>held := [''broken_node3''],
                trace := [CreateLockE ''broken_node3'' 30, LockE ''broken_node3'']\<rparr>)"
  by (simp add: demo_defs prim_defs)

lemma demo_UpdateNodeCPU_node3:
  "UpdateNodeCPU demo_env ''broken'' ''node3'' [''0'' \<mapsto> 5] ''sub'' demo_world =
     (Inl (IsDirectory ''/eru-core/pod/broken/node/node3/info''),
      demo_world\<lparr>trace := [CreateLockE ''broken_node3'' 30, LockE ''broken_node3'',
                 EtcdGet ''/eru-core/pod/broken/node/node3/info'', UnlockE ''broken_node3'']\<rparr>)"
  by (simp add: UpdateNodeCPU_def UpdateNodeCPU_locked_def demo_defs prim_defs)

text \<open>
  C3. Once \<^verbatim>\<open>UpdateNodeCPU\<close> has created the lock of (pod, node) and acquired it,
  the call releases it whatever its result is: on the success path and on every error
  path after the acquisition (failed read, directory at the key, document that does not
  parse, failed marshalling, failed write). The lock is held after the acquisition and is
  not held when the call returns, the set of held locks is the one before the call, and
  the release is the last external call and the only release.
\<close>

theorem UpdateNodeCPU_releases_lock:
  assumes "CreateLock E (podname @ ''_'' @ nodename) 30 s = (Inr lock, s1)"
    and "Lock_acquire E lock s1 = (Inr (), s2)"
    and "UpdateNodeCPU E podname nodename cpu action s = (r, s')"
  shows "lock_name lock = podname @ ''_'' @ nodename
     \<and> lock_name lock \<in> set (held s2)
     \<and> lock_name lock \<notin> set (held s')
     \<and> held s' = held s
     \<and> (\<exists>mid. trace s' = trace s2 @ mid @ [UnlockE (lock_name lock)]
            \<and> UnlockE (lock_name lock) \<notin> set mid)"
proof -
  obtain r3 s3 where b: "UpdateNodeCPU_locked E podname nodename cpu action s2 = (r3, s3)"
    by (cases "UpdateNodeCPU_locked E podname nodename cpu action s2")
  from assms b have s': "s' = Unlock lock s3"
    by (auto simp: UpdateNodeCPU_def)
  from assms(1) have l: "lock = Lock (podname @ ''_'' @ nodename) 30"
    and s1: "held s1 = held s"
    by (auto dest!: CreateLock_Inr)
  from assms(2) have h2: "held s2 = lock_name lock # held s1"
    and nin: "lock_name lock \<notin> set (held s1)"
    by (auto dest!: Lock_acquire_Inr)
  from b have h3: "held s3 = held s2" by (rule UpdateNodeCPU_locked_held)
  from UpdateNodeCPU_locked_trace [OF b] obtain mid where
    m: "trace s3 = trace s2 @ mid" "UnlockE (lock_name lock) \<notin> set mid" by blast
  from m s' have "trace s' = trace s2 @ mid @ [UnlockE (lock_name lock)]
      \<and> UnlockE (lock_name lock) \<notin> set mid" by simp
  then have t: "\<exists>mid. trace s' = trace s2 @ mid @ [UnlockE (lock_name lock)]
      \<and> UnlockE (lock_name lock) \<notin> set mid" by blast
  show ?thesis using s' l s1 h2 nin h3 t by simp
qed

theorem UpdateNodeCPU_releases_lock_witness:
  "CreateLock demo_env (''broken'' @ ''_'' @ ''node3'') 30 demo_world =
     (Inr (Lock ''broken_node3'' 30), emit (CreateLockE ''broken_node3'' 30) demo_world)
   \<and> fst (Lock_acquire demo_env (Lock ''broken_node3'' 30)
            (emit (CreateLockE ''broken_node3'' 30) demo_world)) = Inr ()
   \<and> fst (UpdateNodeCPU demo_env ''broken'' ''node3'' [''0'' \<mapsto> 5] ''sub'' demo_world) =
       Inl (IsDirectory ''/eru-core/pod/broken/node/node3/info'')
   \<and> ''broken_node3'' \<in> set (held (snd (Lock_acquire demo_env (Lock ''broken_node3'' 30)
            (emit (CreateLockE ''broken_node3'' 30) demo_world))))
   \<and> ''broken_node3'' \<notin> set (held (snd (UpdateNodeCPU demo_env ''broken'' ''node3'' [''0'' \<mapsto> 5]
            ''sub'' demo_world)))
   \<and> last (trace (snd (UpdateNodeCPU demo_env ''broken'' ''node3'' [''0'' \<mapsto> 5] ''sub'' demo_world)))
       = UnlockE ''broken_node3''"
proof -
  have c: "CreateLock demo_env ''broken_node3'' 30 demo_world =
     (Inr (Lock ''broken_node3'' 30), emit (CreateLockE ''broken_node3'' 30) demo_world)"
    using demo_CreateLock by simp
  show ?thesis
    using UpdateNodeCPU_releases_lock [OF demo_CreateLock demo_Lock_acquire demo_UpdateNodeCPU_node3]
    by (simp add: c demo_Lock_acquire demo_UpdateNodeCPU_node3)
qed

section \<open>Updating the CPU map\<close>

lemma Add_empty [simp]: "Add c Map.empty = c"
  by (simp add: Add_def)



lemma applyAction_known:
  "action \<in> {''add'', ''+'', ''sub'', ''-''} \<Longrightarrow>
     applyAction action cpu node =
       node\<lparr>CPU := (\<lambda>label. case cpu label of
                None \<Rightarrow> CPU node label
              | Some v \<Rightarrow> Some ((case CPU node label of None \<Rightarrow> 0 | Some x \<Rightarrow> x)
                           + (if action \<in> {''add'', ''+''} then v else - v)))\<rparr>"
  by (auto simp: applyAction_def Add_def Sub_def fun_eq_iff split: option.splits)

lemma UpdateNodeCPU_Inr:
  assumes "UpdateNodeCPU E podname nodename cpu action s = (Inr u, s')"
  shows "\<exists>resp node bytes. etcd s (nodeInfoKey podname nodename) = Some resp \<and> \<not> Dir resp
      \<and> Unmarshal E (Value resp) = Inr node
      \<and> Marshal E (applyAction action cpu node) = Inr bytes
      \<and> etcd s' = (etcd s)(nodeInfoKey podname nodename \<mapsto>
                      EtcdNode (nodeInfoKey podname nodename) False bytes [])"
  using assms
  by (auto simp: UpdateNodeCPU_def UpdateNodeCPU_locked_def
        split: sum.splits prod.splits if_splits
        dest!: CreateLock_Inr Lock_acquire_Inr etcd_Get_Inr etcd_Set_Inr)



lemma etcd_Set_Inr_world:
  "etcd_Set E key val s = (Inr u, s') \<Longrightarrow>
     s' = emit (EtcdSet key val) (s\<lparr>etcd := (etcd s)(key \<mapsto> EtcdNode key False val [])\<rparr>)"
  by (auto simp: etcd_Set_def split: option.splits if_splits)

lemma UpdateNodeCPU_Inr_world:
  assumes "UpdateNodeCPU E podname nodename cpu action s = (Inr u, s')"
  shows "\<exists>resp node bytes. etcd s (nodeInfoKey podname nodename) = Some resp \<and> \<not> Dir resp
      \<and> Unmarshal E (Value resp) = Inr node
      \<and> Marshal E (applyAction action cpu node) = Inr bytes
      \<and> s' = s\<lparr>etcd := (etcd s)(nodeInfoKey podname nodename \<mapsto>
                      EtcdNode (nodeInfoKey podname nodename) False bytes []),
               trace := trace s @ [CreateLockE (podname @ ''_'' @ nodename) 30,
                  LockE (podname @ ''_'' @ nodename), EtcdGet (nodeInfoKey podname nodename),
                  EtcdSet (nodeInfoKey podname nodename) bytes,
                  UnlockE (podname @ ''_'' @ nodename)]\<rparr>"
  using assms
  by (auto simp: UpdateNodeCPU_def UpdateNodeCPU_locked_def Unlock_def emit_def
        split: sum.splits prod.splits if_splits
        dest!: CreateLock_Inr Lock_acquire_Inr etcd_Get_Inr etcd_Set_Inr_world)

lemma UpdateNodeCPU_no_fault_world:
  assumes "\<forall>i. fault E i = None" "podname @ ''_'' @ nodename \<notin> set (held s)"
    "etcd s (nodeInfoKey podname nodename) = Some resp" "\<not> Dir resp"
    "Unmarshal E (Value resp) = Inr node" "Marshal E (applyAction action cpu node) = Inr bytes"
  shows "UpdateNodeCPU E podname nodename cpu action s =
     (Inr (), s\<lparr>etcd := (etcd s)(nodeInfoKey podname nodename \<mapsto>
                      EtcdNode (nodeInfoKey podname nodename) False bytes []),
               trace := trace s @ [CreateLockE (podname @ ''_'' @ nodename) 30,
                  LockE (podname @ ''_'' @ nodename), EtcdGet (nodeInfoKey podname nodename),
                  EtcdSet (nodeInfoKey podname nodename) bytes,
                  UnlockE (podname @ ''_'' @ nodename)]\<rparr>)"
  using assms
  by (simp add: UpdateNodeCPU_def UpdateNodeCPU_locked_def CreateLock_def Lock_acquire_def
        etcd_Get_def etcd_Set_def Unlock_def emit_def tick_def)

text \<open>
  C2. Let the action be \<^verbatim>\<open>add\<close> or \<^verbatim>\<open>+\<close> (\<^verbatim>\<open>sub\<close> or \<^verbatim>\<open>-\<close>). When
  \<^verbatim>\<open>UpdateNodeCPU\<close> succeeds, the key held a leaf whose bytes parse as a node document,
  and the call made exactly one write, at the same key, of the marshalling of that
  document with only its CPU map replaced: a label outside the delta keeps its entry, and
  a label of the delta gets the old value (zero when the label was absent, so the label
  is created) plus (minus) the delta's value, over the integers and with no clamping at
  zero. Nothing else of the world changes but the trace, and where the codec reads its own
  output back, the document stored at the key is the old one with that CPU map. Success is
  reached: when no external call fails, the lock is free and the document parses and
  marshals, the call returns success in exactly that world.
\<close>

theorem UpdateNodeCPU_applies_delta:
  assumes "action \<in> {''add'', ''+'', ''sub'', ''-''}"
  shows "(UpdateNodeCPU E podname nodename cpu action s = (Inr (), s') \<longrightarrow>
      (\<exists>resp node bytes newcpu.
        etcd s (nodeInfoKey podname nodename) = Some resp \<and> \<not> Dir resp
        \<and> Unmarshal E (Value resp) = Inr node
        \<and> (\<forall>label. newcpu label =
              (case cpu label of
                 None \<Rightarrow> CPU node label
               | Some v \<Rightarrow> Some ((case CPU node label of None \<Rightarrow> 0 | Some x \<Rightarrow> x)
                             + (if action \<in> {''add'', ''+''} then v else - v))))
        \<and> Marshal E (node\<lparr>CPU := newcpu\<rparr>) = Inr bytes
        \<and> etcd s' = (etcd s)(nodeInfoKey podname nodename \<mapsto>
                        EtcdNode (nodeInfoKey podname nodename) False bytes [])
        \<and> s' = s\<lparr>etcd := (etcd s)(nodeInfoKey podname nodename \<mapsto>
                        EtcdNode (nodeInfoKey podname nodename) False bytes []),
                 trace := trace s @ [CreateLockE (podname @ ''_'' @ nodename) 30,
                    LockE (podname @ ''_'' @ nodename), EtcdGet (nodeInfoKey podname nodename),
                    EtcdSet (nodeInfoKey podname nodename) bytes,
                    UnlockE (podname @ ''_'' @ nodename)]\<rparr>
        \<and> (Unmarshal E bytes = Inr (node\<lparr>CPU := newcpu\<rparr>) \<longrightarrow>
             (\<exists>stored. etcd s' (nodeInfoKey podname nodename) = Some stored \<and> \<not> Dir stored
                \<and> Unmarshal E (Value stored) = Inr (node\<lparr>CPU := newcpu\<rparr>)))))
    \<and> ((\<forall>i. fault E i = None) \<longrightarrow> podname @ ''_'' @ nodename \<notin> set (held s) \<longrightarrow>
        etcd s (nodeInfoKey podname nodename) = Some resp0 \<longrightarrow> \<not> Dir resp0 \<longrightarrow>
        Unmarshal E (Value resp0) = Inr node0 \<longrightarrow>
        Marshal E (node0\<lparr>CPU := (\<lambda>label. case cpu label of
                 None \<Rightarrow> CPU node0 label
               | Some v \<Rightarrow> Some ((case CPU node0 label of None \<Rightarrow> 0 | Some x \<Rightarrow> x)
                             + (if action \<in> {''add'', ''+''} then v else - v)))\<rparr>) = Inr bytes0 \<longrightarrow>
        UpdateNodeCPU E podname nodename cpu action s =
          (Inr (), s\<lparr>etcd := (etcd s)(nodeInfoKey podname nodename \<mapsto>
                        EtcdNode (nodeInfoKey podname nodename) False bytes0 []),
                 trace := trace s @ [CreateLockE (podname @ ''_'' @ nodename) 30,
                    LockE (podname @ ''_'' @ nodename), EtcdGet (nodeInfoKey podname nodename),
                    EtcdSet (nodeInfoKey podname nodename) bytes0,
                    UnlockE (podname @ ''_'' @ nodename)]\<rparr>))"
proof (intro conjI impI)
  assume a: "UpdateNodeCPU E podname nodename cpu action s = (Inr (), s')"
  let ?key = "nodeInfoKey podname nodename"
  from UpdateNodeCPU_Inr_world [OF a] obtain resp node bytes where
    h: "etcd s ?key = Some resp" "\<not> Dir resp"
       "Unmarshal E (Value resp) = Inr node"
       "Marshal E (applyAction action cpu node) = Inr bytes"
       "s' = s\<lparr>etcd := (etcd s)(?key \<mapsto> EtcdNode ?key False bytes []),
               trace := trace s @ [CreateLockE (podname @ ''_'' @ nodename) 30,
                  LockE (podname @ ''_'' @ nodename), EtcdGet ?key, EtcdSet ?key bytes,
                  UnlockE (podname @ ''_'' @ nodename)]\<rparr>"
    by blast
  let ?new = "\<lambda>label. case cpu label of
                None \<Rightarrow> CPU node label
              | Some v \<Rightarrow> Some ((case CPU node label of None \<Rightarrow> 0 | Some x \<Rightarrow> x)
                           + (if action \<in> {''add'', ''+''} then v else - v))"
  from h(4) have m: "Marshal E (node\<lparr>CPU := ?new\<rparr>) = Inr bytes"
    by (simp only: applyAction_known [OF assms])
  from h(5) have e: "etcd s' = (etcd s)(?key \<mapsto> EtcdNode ?key False bytes [])" by simp
  from e have r: "Unmarshal E bytes = Inr (node\<lparr>CPU := ?new\<rparr>) \<longrightarrow>
       (\<exists>stored. etcd s' ?key = Some stored \<and> \<not> Dir stored
          \<and> Unmarshal E (Value stored) = Inr (node\<lparr>CPU := ?new\<rparr>))" by simp
  from h(1,2,3) m e h(5) r
  show "\<exists>resp node bytes newcpu.
        etcd s ?key = Some resp \<and> \<not> Dir resp
        \<and> Unmarshal E (Value resp) = Inr node
        \<and> (\<forall>label. newcpu label =
              (case cpu label of
                 None \<Rightarrow> CPU node label
               | Some v \<Rightarrow> Some ((case CPU node label of None \<Rightarrow> 0 | Some x \<Rightarrow> x)
                             + (if action \<in> {''add'', ''+''} then v else - v))))
        \<and> Marshal E (node\<lparr>CPU := newcpu\<rparr>) = Inr bytes
        \<and> etcd s' = (etcd s)(?key \<mapsto> EtcdNode ?key False bytes [])
        \<and> s' = s\<lparr>etcd := (etcd s)(?key \<mapsto> EtcdNode ?key False bytes []),
                 trace := trace s @ [CreateLockE (podname @ ''_'' @ nodename) 30,
                    LockE (podname @ ''_'' @ nodename), EtcdGet ?key, EtcdSet ?key bytes,
                    UnlockE (podname @ ''_'' @ nodename)]\<rparr>
        \<and> (Unmarshal E bytes = Inr (node\<lparr>CPU := newcpu\<rparr>) \<longrightarrow>
             (\<exists>stored. etcd s' ?key = Some stored \<and> \<not> Dir stored
                \<and> Unmarshal E (Value stored) = Inr (node\<lparr>CPU := newcpu\<rparr>)))"
    by (intro exI [of _ resp] exI [of _ node] exI [of _ bytes] exI [of _ ?new] conjI allI)
       (assumption | rule refl)+
next
  let ?key = "nodeInfoKey podname nodename"
  assume b: "\<forall>i. fault E i = None" "podname @ ''_'' @ nodename \<notin> set (held s)"
    "etcd s ?key = Some resp0" "\<not> Dir resp0" "Unmarshal E (Value resp0) = Inr node0"
    "Marshal E (node0\<lparr>CPU := (\<lambda>label. case cpu label of
                 None \<Rightarrow> CPU node0 label
               | Some v \<Rightarrow> Some ((case CPU node0 label of None \<Rightarrow> 0 | Some x \<Rightarrow> x)
                             + (if action \<in> {''add'', ''+''} then v else - v)))\<rparr>) = Inr bytes0"
  from b(6) have m: "Marshal E (applyAction action cpu node0) = Inr bytes0"
    by (simp only: applyAction_known [OF assms])
  from UpdateNodeCPU_no_fault_world [OF b(1,2,3,4,5) m]
  show "UpdateNodeCPU E podname nodename cpu action s =
          (Inr (), s\<lparr>etcd := (etcd s)(?key \<mapsto> EtcdNode ?key False bytes0 []),
                 trace := trace s @ [CreateLockE (podname @ ''_'' @ nodename) 30,
                    LockE (podname @ ''_'' @ nodename), EtcdGet ?key, EtcdSet ?key bytes0,
                    UnlockE (podname @ ''_'' @ nodename)]\<rparr>)" .
qed

theorem UpdateNodeCPU_applies_delta_witness:
  "''sub'' \<in> {''add'', ''+'', ''sub'', ''-''}
   \<and> (\<forall>i. fault ledger_env i = None)
   \<and> ''default'' @ ''_'' @ ''node1'' \<notin> set (held ledger_world)
   \<and> etcd ledger_world (nodeInfoKey ''default'' ''node1'') =
       Some (EtcdNode ''/eru-core/pod/default/node/node1/info'' False
               ''node:default/node1|++++++++++|++++++++++'' [])
   \<and> Unmarshal ledger_env ''node:default/node1|++++++++++|++++++++++''
       = Inr (demo_node ''default'' ''node1'')
   \<and> CPU (demo_node ''default'' ''node1'') = [''0'' \<mapsto> 10, ''1'' \<mapsto> 10]
   \<and> Marshal ledger_env ((demo_node ''default'' ''node1'')\<lparr>CPU := [''0'' \<mapsto> - 5, ''1'' \<mapsto> 10]\<rparr>)
       = Inr ''node:default/node1|-----|++++++++++''
   \<and> UpdateNodeCPU ledger_env ''default'' ''node1'' [''0'' \<mapsto> 15] ''sub'' ledger_world =
       (Inr (),
        ledger_world\<lparr>etcd := (etcd ledger_world)(''/eru-core/pod/default/node/node1/info'' \<mapsto>
             EtcdNode ''/eru-core/pod/default/node/node1/info'' False
               ''node:default/node1|-----|++++++++++'' []),
          trace := [CreateLockE ''default_node1'' 30, LockE ''default_node1'',
                    EtcdGet ''/eru-core/pod/default/node/node1/info'',
                    EtcdSet ''/eru-core/pod/default/node/node1/info''
                      ''node:default/node1|-----|++++++++++'',
                    UnlockE ''default_node1'']\<rparr>)
   \<and> (\<exists>stored.
         etcd (snd (UpdateNodeCPU ledger_env ''default'' ''node1'' [''0'' \<mapsto> 15] ''sub'' ledger_world))
           (nodeInfoKey ''default'' ''node1'') = Some stored
         \<and> \<not> Dir stored
         \<and> Unmarshal ledger_env (Value stored)
             = Inr ((demo_node ''default'' ''node1'')\<lparr>CPU := [''0'' \<mapsto> - 5, ''1'' \<mapsto> 10]\<rparr>))"
proof -
  let ?K = "''/eru-core/pod/default/node/node1/info''"
  let ?old = "''node:default/node1|++++++++++|++++++++++''"
  let ?new = "''node:default/node1|-----|++++++++++''"
  let ?n = "demo_node ''default'' ''node1''"
  let ?n' = "(demo_node ''default'' ''node1'')\<lparr>CPU := [''0'' \<mapsto> - 5, ''1'' \<mapsto> 10]\<rparr>"
  let ?f = "\<lambda>label. case [''0'' \<mapsto> 15::int] label of
                 None \<Rightarrow> CPU ?n label
               | Some v \<Rightarrow> Some ((case CPU ?n label of None \<Rightarrow> 0 | Some x \<Rightarrow> x)
                             + (if ''sub'' \<in> {''add'', ''+''} then v else - v))"
  have a: "''sub'' \<in> {''add'', ''+'', ''sub'', ''-''}" by simp
  have f: "\<forall>i. fault ledger_env i = None" by (simp add: ledger_env_def demo_env_def)
  have hd: "''default'' @ ''_'' @ ''node1'' \<notin> set (held ledger_world)"
    by (simp add: ledger_world_def demo_world_def)
  have g: "etcd ledger_world (nodeInfoKey ''default'' ''node1'') = Some (EtcdNode ?K False ?old [])"
    by (simp add: ledger_world_def nodeInfoKey_def)
  have d: "\<not> Dir (EtcdNode ?K False ?old [])" by simp
  have u: "Unmarshal ledger_env ?old = Inr ?n"
    by (simp add: ledger_defs demo_env_def demo_node_def Let_def)
  have u0: "Unmarshal ledger_env (Value (EtcdNode ?K False ?old [])) = Inr ?n" using u by simp
  have c: "CPU ?n = [''0'' \<mapsto> 10, ''1'' \<mapsto> 10]" by (simp add: demo_node_def)
  have fe: "?f = [''0'' \<mapsto> - 5, ''1'' \<mapsto> 10]"
    by (rule ext) (simp add: c)
  have m: "Marshal ledger_env ?n' = Inr ?new"
    by (simp add: ledger_defs demo_env_def demo_node_def numeral_replicate)
  have m0: "Marshal ledger_env (?n\<lparr>CPU := ?f\<rparr>) = Inr ?new"
    by (simp only: fe m)
  have u': "Unmarshal ledger_env ?new = Inr ?n'"
    by (simp add: ledger_defs demo_env_def demo_node_def Let_def fun_eq_iff)
  note B = UpdateNodeCPU_applies_delta [where cpu = "[''0'' \<mapsto> 15]", OF a, THEN conjunct2,
      rule_format, OF f [rule_format] hd g d u0 m0]
  from UpdateNodeCPU_applies_delta [OF a, THEN conjunct1, rule_format, OF B]
  obtain resp node bytes newcpu where
    h: "etcd ledger_world (nodeInfoKey ''default'' ''node1'') = Some resp"
       "Unmarshal ledger_env (Value resp) = Inr node"
       "\<forall>label. newcpu label =
              (case [''0'' \<mapsto> 15::int] label of
                 None \<Rightarrow> CPU node label
               | Some v \<Rightarrow> Some ((case CPU node label of None \<Rightarrow> 0 | Some x \<Rightarrow> x)
                             + (if ''sub'' \<in> {''add'', ''+''} then v else - v)))"
       "Marshal ledger_env (node\<lparr>CPU := newcpu\<rparr>) = Inr bytes"
       "Unmarshal ledger_env bytes = Inr (node\<lparr>CPU := newcpu\<rparr>) \<longrightarrow>
          (\<exists>stored. etcd (snd (UpdateNodeCPU ledger_env ''default'' ''node1'' [''0'' \<mapsto> 15] ''sub''
                 ledger_world)) (nodeInfoKey ''default'' ''node1'') = Some stored
              \<and> \<not> Dir stored
              \<and> Unmarshal ledger_env (Value stored) = Inr (node\<lparr>CPU := newcpu\<rparr>))"
    by (simp only: B snd_conv) blast
  from h(1) g have r: "resp = EtcdNode ?K False ?old []" by simp
  from h(2) r u have n: "node = ?n" by simp
  from h(3) n have nc: "newcpu = ?f" by (intro ext) simp
  from nc fe have nc': "newcpu = [''0'' \<mapsto> - 5, ''1'' \<mapsto> 10]" by simp
  from h(4) n nc' m have b: "bytes = ?new" by simp
  from h(5) n nc' b u' have rb: "\<exists>stored.
         etcd (snd (UpdateNodeCPU ledger_env ''default'' ''node1'' [''0'' \<mapsto> 15] ''sub'' ledger_world))
           (nodeInfoKey ''default'' ''node1'') = Some stored
         \<and> \<not> Dir stored \<and> Unmarshal ledger_env (Value stored) = Inr ?n'"
    by simp
  have B': "UpdateNodeCPU ledger_env ''default'' ''node1'' [''0'' \<mapsto> 15] ''sub'' ledger_world =
       (Inr (),
        ledger_world\<lparr>etcd := (etcd ledger_world)(?K \<mapsto> EtcdNode ?K False ?new []),
          trace := [CreateLockE ''default_node1'' 30, LockE ''default_node1'',
                    EtcdGet ?K, EtcdSet ?K ?new, UnlockE ''default_node1'']\<rparr>)"
  proof -
    have tw: "trace ledger_world = []" by (simp add: ledger_world_def demo_world_def)
    show ?thesis using B by (simp add: nodeInfoKey_def tw)
  qed
  from a f hd g u c m B' rb show ?thesis by (intro conjI) assumption+
qed



section \<open>Seeding the CPU map\<close>

lemma digit_char_inj:
  assumes "a < 10" "b < 10" "digit_char a = digit_char b"
  shows "a = b"
proof -
  have d: "distinct ''0123456789''" by simp
  have l: "length ''0123456789'' = 10" by simp
  from assms(3) have "''0123456789'' ! a = ''0123456789'' ! b" by (simp only: digit_char_def)
  with d assms(1,2) l show "a = b" by (simp only: nth_eq_iff_index_eq)
qed

lemma digits_nonempty: "digits n \<noteq> []"
  by (subst digits.simps) simp

lemma digits_small: "n < 10 \<Longrightarrow> digits n = [digit_char n]"
  by (subst digits.simps) simp

lemma digits_large: "\<not> n < 10 \<Longrightarrow> digits n = digits (n div 10) @ [digit_char (n mod 10)]"
  by (subst digits.simps) simp

lemma digits_inj: "digits n = digits m \<Longrightarrow> n = m"
proof (induction n arbitrary: m rule: digits.induct)
  case (1 n)
  show ?case
  proof (cases "n < 10")
    case True
    note dn = digits_small [OF True]
    show ?thesis
    proof (cases "m < 10")
      case m: True
      with dn "1.prems" True show ?thesis by (auto simp: digits_small dest: digit_char_inj)
    next
      case m: False
      from dn "1.prems" digits_large [OF m] digits_nonempty [of "m div 10"]
      show ?thesis by (cases "digits (m div 10)") auto
    qed
  next
    case False
    note dn = digits_large [OF False]
    show ?thesis
    proof (cases "m < 10")
      case m: True
      from dn "1.prems" digits_small [OF m] digits_nonempty [of "n div 10"]
      show ?thesis by (cases "digits (n div 10)") auto
    next
      case m: False
      from dn digits_large [OF m] "1.prems" have e1: "digits (n div 10) = digits (m div 10)"
        and e2: "digit_char (n mod 10) = digit_char (m mod 10)" by auto
      from "1.IH" [OF False e1] have q: "n div 10 = m div 10" .
      have r: "n mod 10 = m mod 10" by (rule digit_char_inj [OF _ _ e2]) simp_all
      from q r show ?thesis by (metis div_mult_mod_eq)
    qed
  qed
qed

lemma Itoa_inj_on: "inj_on Itoa {i. 0 \<le> i}"
  by (auto simp: inj_on_def Itoa_def dest!: digits_inj)

lemma cpumap_loop_eq:
  "cpumap_loop i n m = (\<lambda>l. if l \<in> Itoa ` {i..<n} then Some 10 else m l)"
proof (induction i n m rule: cpumap_loop.induct)
  case (1 i n cpumap)
  show ?case
  proof (cases "i < n")
    case True
    have s: "{i..<n} = insert i {i + 1..<n}" using True by auto
    have "cpumap_loop i n cpumap = cpumap_loop (i + 1) n (cpumap(Itoa i \<mapsto> 10))"
      using True by (subst cpumap_loop.simps) simp
    also have "\<dots> = (\<lambda>l. if l \<in> Itoa ` {i + 1..<n} then Some 10 else (cpumap(Itoa i \<mapsto> 10)) l)"
      using "1.IH" [OF True] .
    also have "\<dots> = (\<lambda>l. if l \<in> Itoa ` {i..<n} then Some 10 else cpumap l)"
      by (subst s) (auto simp: fun_eq_iff)
    finally show ?thesis .
  next
    case False
    then show ?thesis by (subst cpumap_loop.simps) auto
  qed
qed

lemma cpumap_loop_dom: "dom (cpumap_loop 0 n Map.empty) = Itoa ` {0..<n}"
  by (auto simp: cpumap_loop_eq dom_def)

lemma cpumap_loop_card: "card (dom (cpumap_loop 0 n Map.empty)) = nat n"
proof -
  have "inj_on Itoa {0..<n}" by (rule inj_on_subset [OF Itoa_inj_on]) auto
  then have "card (Itoa ` {0..<n}) = card {0..<n}" by (rule card_image)
  then show ?thesis by (simp add: cpumap_loop_dom)
qed

lemma AddNode_Inr:
  assumes "AddNode E name endpoint podname cafile certfile keyfile public s = (Inr node, s')"
  shows "\<exists>engine bytes. node = \<lparr>Name = name, Endpoint = endpoint, Podname = podname, Public = public,
                    CPU = cpumap_loop 0 (NCPU (engine_info E engine)) Map.empty, InitCPU = Map.empty,
                    MemCap = 0, InitMemCap = 0, Engine = Some engine\<rparr>
      \<and> Marshal E node = Inr bytes
      \<and> etcd s' (nodeInfoKey podname name) = Some (EtcdNode (nodeInfoKey podname name) False bytes [])"
  using assms
  by (auto simp: AddNode_def Let_def split: if_splits prod.splits sum.splits
        dest!: engine_Info_Inr etcd_Set_Inr)

lemma demo_AddNode:
  "AddNode demo_env ''node9'' ''tcp://10.0.0.9:2375'' ''default'' [] [] [] False demo_world =
     (Inr demo_added,
      demo_world\<lparr>etcd := (etcd demo_world)(''/eru-core/pod/default/node/node9/info'' \<mapsto>
           EtcdNode ''/eru-core/pod/default/node/node9/info'' False ''node:default/node9'' []),
        clients := [''10.0.0.9'' \<mapsto> demo_client 1 ''tcp://10.0.0.9:2375''],
        trace := [GetPodE ''default'', NewClientE ''tcp://10.0.0.9:2375'',
                  InfoE (demo_client 1 ''tcp://10.0.0.9:2375'') (Some 5) True,
                  InfoE (demo_client 1 ''tcp://10.0.0.9:2375'') None True,
                  EtcdSet ''/eru-core/pod/default/node/node9/info'' ''node:default/node9'']\<rparr>)"
  by (simp add: AddNode_def saveTLS_def demo_added_def demo_defs prim_defs)

lemma Itoa_0: "Itoa 0 = ''0''"
  by (simp add: Itoa_def digits_small digit_char_def)

lemma demo_added_CPU_0: "CPU demo_added ''0'' = Some 10"
proof -
  have "Itoa 0 \<in> Itoa ` {0..<4}" by (rule imageI) simp
  then show ?thesis by (simp add: demo_added_def cpumap_loop_eq Itoa_0)
qed

text \<open>
  C4, as amended. When \<^verbatim>\<open>AddNode\<close> succeeds and the engine reports \<open>N\<close> cores, the
  bytes written at the node's key are the marshalling of the returned node, whose CPU map
  has exactly the labels \<^verbatim>\<open>0\<close> to \<^verbatim>\<open>N-1\<close> in decimal (\<open>N\<close> entries, none when
  \<open>N\<close> is not positive), each at the per-core weight 10. \<^verbatim>\<open>AddNode\<close> assigns no
  \<open>InitCPU\<close>: the field keeps its zero value, the empty map. The claim as stated, that
  \<open>InitCPU\<close> equals \<open>CPU\<close>, fails with 4 cores, as the counterexample shows.
\<close>

theorem AddNode_seeds_cpu:
  assumes "AddNode E name endpoint podname cafile certfile keyfile public s = (Inr node, s')"
  shows "\<exists>engine bytes.
      Engine node = Some engine
      \<and> Marshal E node = Inr bytes
      \<and> etcd s' (nodeInfoKey podname name) = Some (EtcdNode (nodeInfoKey podname name) False bytes [])
      \<and> dom (CPU node) = Itoa ` {0 ..< NCPU (engine_info E engine)}
      \<and> card (dom (CPU node)) = nat (NCPU (engine_info E engine))
      \<and> (\<forall>label \<in> dom (CPU node). CPU node label = Some 10)
      \<and> InitCPU node = Map.empty"
proof -
  from AddNode_Inr [OF assms] obtain engine bytes where
    n: "node = \<lparr>Name = name, Endpoint = endpoint, Podname = podname, Public = public,
                    CPU = cpumap_loop 0 (NCPU (engine_info E engine)) Map.empty, InitCPU = Map.empty,
                    MemCap = 0, InitMemCap = 0, Engine = Some engine\<rparr>"
    and m: "Marshal E node = Inr bytes"
    and e: "etcd s' (nodeInfoKey podname name) = Some (EtcdNode (nodeInfoKey podname name) False bytes [])"
    by blast
  have c: "CPU node = cpumap_loop 0 (NCPU (engine_info E engine)) Map.empty" by (simp add: n)
  have v: "\<forall>label \<in> dom (CPU node). CPU node label = Some 10"
    by (auto simp: c cpumap_loop_eq split: if_splits)
  show ?thesis using m e v
    by (intro exI [of _ engine] exI [of _ bytes])
       (simp add: c cpumap_loop_dom [symmetric] cpumap_loop_card, simp add: n)
qed

theorem AddNode_seeds_cpu_witness:
  "fst (AddNode demo_env ''node9'' ''tcp://10.0.0.9:2375'' ''default'' [] [] [] False demo_world)
     = Inr demo_added
   \<and> Engine demo_added = Some (demo_client 1 ''tcp://10.0.0.9:2375'')
   \<and> NCPU (engine_info demo_env (demo_client 1 ''tcp://10.0.0.9:2375'')) = 4
   \<and> dom (CPU demo_added) = Itoa ` {0..<4}
   \<and> card (dom (CPU demo_added)) = 4
   \<and> CPU demo_added ''0'' = Some 10
   \<and> InitCPU demo_added = Map.empty"
proof -
  from AddNode_seeds_cpu [OF demo_AddNode] obtain engine where
    h: "Engine demo_added = Some engine"
       "dom (CPU demo_added) = Itoa ` {0 ..< NCPU (engine_info demo_env engine)}"
       "card (dom (CPU demo_added)) = nat (NCPU (engine_info demo_env engine))"
       "InitCPU demo_added = Map.empty"
    by blast
  from h(1) have e: "engine = demo_client 1 ''tcp://10.0.0.9:2375''" by (simp add: demo_added_def)
  have n: "NCPU (engine_info demo_env (demo_client 1 ''tcp://10.0.0.9:2375'')) = 4"
    by (simp add: demo_env_def)
  from h e n demo_added_CPU_0 show ?thesis by (simp add: demo_AddNode)
qed

theorem AddNode_InitCPU_counterexample:
  "fst (AddNode demo_env ''node9'' ''tcp://10.0.0.9:2375'' ''default'' [] [] [] False demo_world)
     = Inr demo_added
   \<and> NCPU (engine_info demo_env (demo_client 1 ''tcp://10.0.0.9:2375'')) = 4
   \<and> etcd (snd (AddNode demo_env ''node9'' ''tcp://10.0.0.9:2375'' ''default'' [] [] [] False demo_world))
        ''/eru-core/pod/default/node/node9/info''
       = Some (EtcdNode ''/eru-core/pod/default/node/node9/info'' False ''node:default/node9'' [])
   \<and> Marshal demo_env demo_added = Inr ''node:default/node9''
   \<and> CPU demo_added ''0'' = Some 10
   \<and> InitCPU demo_added ''0'' = None
   \<and> InitCPU demo_added \<noteq> CPU demo_added"
proof -
  have i: "InitCPU demo_added ''0'' = None" by (simp add: demo_added_def)
  from i demo_added_CPU_0 have ne: "InitCPU demo_added \<noteq> CPU demo_added" by auto
  have m: "Marshal demo_env demo_added = Inr ''node:default/node9''"
    by (simp add: demo_added_def demo_defs)
  have n: "NCPU (engine_info demo_env (demo_client 1 ''tcp://10.0.0.9:2375'')) = 4"
    by (simp add: demo_env_def)
  from i ne m n demo_added_CPU_0 show ?thesis by (simp add: demo_AddNode)
qed

section \<open>Listing nodes\<close>






section \<open>TLS material on a cache miss\<close>

text \<open>
  C9. The claim is that, on a cache miss with a certificate directory configured, the
  client construction checks for the three material files of the host and fetches them
  from the store when they are absent; the comment in \<^verbatim>\<open>makeDockerClient\<close> says the
  same. The code asks \<^verbatim>\<open>os.Stat\<close> for the per-host directory only. Evaluated on a store
  whose per-host directory exists and holds none of the three files, with an empty cache:
  the directory is found, \<^verbatim>\<open>dumpFromEtcd\<close> is not called (no directory creation, no
  read of the store, no file written), and the construction of the TLS client fails on
  the missing material. The last conjunct shows that the code itself reaches such a state:
  \<^verbatim>\<open>dumpFromEtcd\<close> creates the directory first, and a failed read of the CA blob leaves
  it empty.
\<close>

theorem makeDockerClient_partial_directory:
  "CertPath tls_env = ''/etc/docker/tls''
   \<and> cache_get ''10.0.0.5'' partial_world = None
   \<and> files partial_world ''/etc/docker/tls/10.0.0.5'' = Some Directory
   \<and> \<not> is_file partial_world ''/etc/docker/tls/10.0.0.5/ca.pem''
   \<and> \<not> is_file partial_world ''/etc/docker/tls/10.0.0.5/cert.pem''
   \<and> \<not> is_file partial_world ''/etc/docker/tls/10.0.0.5/key.pem''
   \<and> makeDockerClient tls_env ''default'' ''node1'' ''tcp://10.0.0.5:2376'' False partial_world =
       (Inl (TLSError ''/etc/docker/tls/10.0.0.5/ca.pem''),
        partial_world\<lparr>trace := [StatE ''/etc/docker/tls/10.0.0.5'',
                                  TLSClientE ''/etc/docker/tls/10.0.0.5/ca.pem'']\<rparr>)
   \<and> makeDockerClient tls_env ''default'' ''node1'' ''tcp://10.0.0.5:2376'' False demo_world =
       (Inl (EtcdFailure ''context deadline exceeded''),
        partial_world\<lparr>trace := [StatE ''/etc/docker/tls/10.0.0.5'',
                                  MkdirAllE ''/etc/docker/tls/10.0.0.5'',
                                  EtcdGet ''/eru-core/pod/default/node/node1/ca.pem'']\<rparr>)"
  by (simp add: tls_env_def partial_world_def demo_defs prim_defs)

end
